theory Spec2Isabelle
  imports Main "HOL-Library.Product_Lexorder"
begin

section \<open>Download-state model of the torrent client (models.py)\<close>

text \<open>
  The classes of \<^verbatim>\<open>models.py\<close> are embedded as records, their methods as functions
  that take the object and return the updated object. A method that raises returns
  \<open>Inl\<close> of the exception. Python integers are unbounded, so every integer field is an
  \<open>int\<close>. Python sets are kept as lists without duplicates (by the element type's own
  \<^verbatim>\<open>__eq__\<close>), in the set's iteration order.
\<close>

subsection \<open>Exceptions\<close>

datatype error =
  ValueError | AssertionError | IndexError | KeyError | TypeError
  | AttributeError | ZeroDivisionError | InvalidStateError | OverflowError

subsection \<open>Arithmetic helpers of the source\<close>

text \<open>
  \<^verbatim>\<open>a // b\<close> is floor division, which is \<open>div\<close> on \<open>int\<close>. \<open>ceil_div\<close> is the exact
  ceiling of a quotient of integers.
\<close>

definition ceil_div :: "int \<Rightarrow> int \<Rightarrow> int" where
  "ceil_div a b = - ((- a) div b)"

text \<open>
  \<^verbatim>\<open>ceil(a / b)\<close> of the source, on two integers, divides as floats and rounds the
  float up. Python's \<^verbatim>\<open>a / b\<close> is the binary64 number nearest to the exact quotient
  (ties go to the even significand), ZeroDivisionError for \<open>b = 0\<close> and OverflowError
  when that number is beyond the largest float. A positive float is
  \<open>m * 2 ^ e\<close> with a significand \<open>m\<close> of 53 bits and \<open>e \<ge> -1074\<close>; \<open>float_exponent\<close>
  picks \<open>e\<close> so that the quotient scaled by \<open>2 ^ (- e)\<close> lies from \<open>2 ^ 52\<close> up to
  \<open>2 ^ 53\<close> (or \<open>e = -1074\<close> for a smaller one), and \<open>float_mantissa\<close> rounds the scaled
  quotient to the nearest integer. \<^verbatim>\<open>math.ceil\<close> of the float is then exact integer
  arithmetic. \<open>bit_length\<close> is \<^verbatim>\<open>int.bit_length\<close>.
\<close>

fun bit_length :: "nat \<Rightarrow> nat" where
  "bit_length n = (if n = 0 then 0 else Suc (bit_length (n div 2)))"

declare bit_length.simps [simp del]

definition round_half_even :: "int \<Rightarrow> int \<Rightarrow> int" where
  "round_half_even num den =
     (let m = num div den; r = num mod den
      in if den < 2 * r \<or> (2 * r = den \<and> odd m) then m + 1 else m)"

definition scale_num :: "int \<Rightarrow> int \<Rightarrow> int" where
  "scale_num a e = (if 0 \<le> e then a else a * 2 ^ nat (- e))"

definition scale_den :: "int \<Rightarrow> int \<Rightarrow> int" where
  "scale_den b e = (if 0 \<le> e then b * 2 ^ nat e else b)"

definition float_exponent :: "int \<Rightarrow> int \<Rightarrow> int" where
  "float_exponent a b =
     (let e0 = int (bit_length (nat a)) - int (bit_length (nat b)) - 53;
          e1 = (if 2 ^ 53 * scale_den b e0 \<le> scale_num a e0 then e0 + 1 else e0)
      in max e1 (- 1074))"

definition float_mantissa :: "int \<Rightarrow> int \<Rightarrow> int" where
  "float_mantissa a b =
     round_half_even (scale_num a (float_exponent a b)) (scale_den b (float_exponent a b))"

definition py_ceil_truediv :: "int \<Rightarrow> int \<Rightarrow> error + int" where
  "py_ceil_truediv a b =
     (if b = 0 then Inl ZeroDivisionError
      else if a = 0 then Inr 0
      else
        (let e = float_exponent \<bar>a\<bar> \<bar>b\<bar>; m = float_mantissa \<bar>a\<bar> \<bar>b\<bar>
         in if 971 < e \<or> (e = 971 \<and> m = 2 ^ 53) then Inl OverflowError
            else if (a < 0) = (b < 0)
            then Inr (if 0 \<le> e then m * 2 ^ nat e else ceil_div m (2 ^ nat (- e)))
            else Inr (- (if 0 \<le> e then m * 2 ^ nat e else m div 2 ^ nat (- e)))))"

text \<open>
  For \<open>0 \<le> a < 2 ^ 53\<close> and \<open>0 < b < 2 ^ 53\<close> the float ceiling is the exact one
  (\<open>py_ceil_truediv_exact\<close> below). The divisions by \<open>MARKED_BLOCK_SIZE\<close> in PieceInfo,
  whose operands are byte positions inside one piece, are written with \<open>ceil_div\<close>;
  the divisions by the piece length in DownloadInfo, whose operands are positions in
  the whole transfer, with \<open>py_ceil_truediv\<close>.
\<close>

definition MARKED_BLOCK_SIZE :: int where
  "MARKED_BLOCK_SIZE = 2 ^ 10"

definition DISTRUST_RATE_TO_BAN :: int where
  "DISTRUST_RATE_TO_BAN = 5"

subsection \<open>Peer\<close>

record Peer =
  host :: string
  port :: int
  peer_id :: "string option"

definition Peer_eq :: "Peer \<Rightarrow> Peer \<Rightarrow> bool" where
  "Peer_eq a b = (host a = host b \<and> port a = port b)"

text \<open>\<^verbatim>\<open>set.add\<close> on a set of peers: an element equal by \<open>Peer_eq\<close> is kept.\<close>

definition peers_add :: "Peer list \<Rightarrow> Peer \<Rightarrow> Peer list" where
  "peers_add s x = (if list_ex (Peer_eq x) s then s else s @ [x])"

subsection \<open>BlockRequest and BlockRequestFuture\<close>

record BlockRequest =
  piece_index :: int
  block_begin :: int
  block_length :: int

text \<open>
  \<^verbatim>\<open>BlockRequest.__eq__\<close> compares the instance dictionaries; for two plain
  BlockRequest objects these hold the three fields. \<^verbatim>\<open>__hash__\<close> is Python's hash of
  the triple; the built-in tuple hash is the parameter \<open>h\<close>.
\<close>

definition BlockRequest_eq :: "BlockRequest \<Rightarrow> BlockRequest \<Rightarrow> bool" where
  "BlockRequest_eq a b =
     (piece_index a = piece_index b \<and> block_begin a = block_begin b
      \<and> block_length a = block_length b)"

definition BlockRequest_hash :: "(int \<times> int \<times> int \<Rightarrow> int) \<Rightarrow> BlockRequest \<Rightarrow> int" where
  "BlockRequest_hash h r = h (piece_index r, block_begin r, block_length r)"

text \<open>
  The state of an \<^verbatim>\<open>asyncio.Future\<close>: pending, cancelled, or finished with a result
  (here always the peer that delivered the block).
\<close>

datatype future_state = PENDING | CANCELLED | FINISHED Peer

text \<open>
  \<^verbatim>\<open>BlockRequestFuture(asyncio.Future, BlockRequest)\<close>. The class body rebinds
  \<^verbatim>\<open>__eq__ = asyncio.Future.__eq__\<close> and \<^verbatim>\<open>__hash__ = asyncio.Future.__hash__\<close>;
  asyncio.Future defines neither, so both are \<^verbatim>\<open>object\<close>'s: equality is object
  identity and the hash is a function of the identity. \<open>obj_id\<close> is the identity of the
  object (two constructor calls never return the same one); the built-in identity
  hash is the parameter \<open>h\<close>.
\<close>

record BlockRequestFuture = BlockRequest +
  obj_id :: nat
  fut_state :: future_state
  prev_performers :: "Peer list"
  performer :: "Peer option"

definition BlockRequestFuture_init :: "nat \<Rightarrow> int \<Rightarrow> int \<Rightarrow> int \<Rightarrow> BlockRequestFuture" where
  "BlockRequestFuture_init oid pi bb bl =
     \<lparr>piece_index = pi, block_begin = bb, block_length = bl,
      obj_id = oid, fut_state = PENDING, prev_performers = [], performer = None\<rparr>"

definition BlockRequestFuture_eq :: "BlockRequestFuture \<Rightarrow> BlockRequestFuture \<Rightarrow> bool" where
  "BlockRequestFuture_eq a b = (obj_id a = obj_id b)"

definition BlockRequestFuture_hash :: "(nat \<Rightarrow> int) \<Rightarrow> BlockRequestFuture \<Rightarrow> int" where
  "BlockRequestFuture_hash h a = h (obj_id a)"

text \<open>\<^verbatim>\<open>Future.set_result\<close>: raises InvalidStateError unless the future is pending.\<close>

definition set_result :: "BlockRequestFuture \<Rightarrow> Peer \<Rightarrow> error + BlockRequestFuture" where
  "set_result fut p =
     (case fut_state fut of
        PENDING \<Rightarrow> Inr (fut\<lparr>fut_state := FINISHED p\<rparr>)
      | _ \<Rightarrow> Inl InvalidStateError)"

text \<open>Membership and \<^verbatim>\<open>set.remove\<close> on a set of futures, by the futures' \<^verbatim>\<open>__eq__\<close>.\<close>

definition futures_contains :: "BlockRequestFuture list \<Rightarrow> BlockRequestFuture \<Rightarrow> bool" where
  "futures_contains s f = list_ex (BlockRequestFuture_eq f) s"

definition futures_remove ::
  "BlockRequestFuture list \<Rightarrow> BlockRequestFuture \<Rightarrow> error + BlockRequestFuture list" where
  "futures_remove s f =
     (if futures_contains s f then Inr (filter (\<lambda>g. \<not> BlockRequestFuture_eq f g) s)
      else Inl KeyError)"

subsection \<open>bitarray\<close>

text \<open>
  A \<^verbatim>\<open>bitarray\<close> is a list of booleans. \<^verbatim>\<open>bitarray(n)\<close> followed by
  \<^verbatim>\<open>setall(False)\<close> gives \<open>n\<close> false bits and raises ValueError for a negative \<open>n\<close>.
  Slice bounds follow Python: a negative bound counts from the end, and both bounds
  are clamped to the length.
\<close>

definition bitarray_new :: "int \<Rightarrow> error + bool list" where
  "bitarray_new n = (if n < 0 then Inl ValueError else Inr (replicate (nat n) False))"

definition slice_bound :: "nat \<Rightarrow> int \<Rightarrow> nat" where
  "slice_bound n i =
     (if i < 0 then (if i + int n < 0 then 0 else nat (i + int n))
      else if int n < i then n else nat i)"

definition slice_set :: "bool list \<Rightarrow> int \<Rightarrow> int \<Rightarrow> bool \<Rightarrow> bool list" where
  "slice_set arr a b v =
     (let lo = slice_bound (length arr) a; hi = slice_bound (length arr) b
      in if lo < hi then take lo arr @ replicate (hi - lo) v @ drop hi arr else arr)"

definition slice_all :: "bool list \<Rightarrow> int \<Rightarrow> int \<Rightarrow> bool" where
  "slice_all arr a b =
     (let lo = slice_bound (length arr) a; hi = slice_bound (length arr) b
      in list_all (\<lambda>x. x) (take (hi - lo) (drop lo arr)))"

subsection \<open>PieceInfo\<close>

text \<open>
  \<open>downloaded\<close> is \<^verbatim>\<open>_downloaded\<close>; the constructor's transient \<^verbatim>\<open>None\<close> is falsy
  and is overwritten by \<^verbatim>\<open>reset_content\<close> before the constructor returns. The three
  optional attributes are \<open>None\<close> where the source stores \<^verbatim>\<open>None\<close>. Each future of
  \<open>blocks_expected\<close> is listed with its current state.
\<close>

record PieceInfo =
  piece_hash :: string
  length_p :: int
  selected_p :: bool
  owners :: "Peer list"
  validating :: bool
  downloaded :: bool
  sources :: "Peer list option"
  block_downloaded :: "bool list option"
  blocks_expected :: "BlockRequestFuture list option"

definition reset_content :: "PieceInfo \<Rightarrow> PieceInfo" where
  "reset_content p =
     p\<lparr>downloaded := False, sources := Some [], block_downloaded := None,
       blocks_expected := Some []\<rparr>"

definition PieceInfo_init :: "string \<Rightarrow> int \<Rightarrow> PieceInfo" where
  "PieceInfo_init h len =
     reset_content
       \<lparr>piece_hash = h, length_p = len, selected_p = True, owners = [],
        validating = False, downloaded = False, sources = None,
        block_downloaded = None, blocks_expected = None\<rparr>"

definition PieceInfo_reset_run_state :: "PieceInfo \<Rightarrow> PieceInfo" where
  "PieceInfo_reset_run_state p = p\<lparr>owners := [], validating := False, blocks_expected := Some []\<rparr>"

text \<open>
  The scan of \<^verbatim>\<open>mark_downloaded_blocks\<close> over the pending futures: the futures whose
  bit range is all true are resolved with \<open>source\<close> and collected.
\<close>

fun scan_expected ::
  "bool list \<Rightarrow> Peer \<Rightarrow> BlockRequestFuture list \<Rightarrow> error + BlockRequestFuture list" where
  "scan_expected arr source [] = Inr []"
| "scan_expected arr source (fut # rest) =
     (let query_begin = block_begin fut div MARKED_BLOCK_SIZE;
          query_end = ceil_div (block_begin fut + block_length fut) MARKED_BLOCK_SIZE
      in if slice_all arr query_begin query_end then
           (case set_result fut source of
              Inl e \<Rightarrow> Inl e
            | Inr fut' \<Rightarrow>
                (case scan_expected arr source rest of
                   Inl e \<Rightarrow> Inl e
                 | Inr ds \<Rightarrow> Inr (fut' # ds)))
         else scan_expected arr source rest)"

fun remove_downloaded ::
  "BlockRequestFuture list \<Rightarrow> BlockRequestFuture list \<Rightarrow> error + BlockRequestFuture list" where
  "remove_downloaded s [] = Inr s"
| "remove_downloaded s (fut # rest) =
     (case futures_remove s fut of
        Inl e \<Rightarrow> Inl e
      | Inr s' \<Rightarrow> remove_downloaded s' rest)"

text \<open>
  \<^verbatim>\<open>PieceInfo.mark_downloaded_blocks\<close>. The result is the piece after the call and the
  futures the call resolved, as they are after \<^verbatim>\<open>set_result\<close>.
\<close>

definition mark_downloaded_blocks ::
  "PieceInfo \<Rightarrow> Peer \<Rightarrow> BlockRequest \<Rightarrow> error + (PieceInfo \<times> BlockRequestFuture list)" where
  "mark_downloaded_blocks p source request =
     (if downloaded p then Inl ValueError
      else case sources p of
        None \<Rightarrow> Inl AttributeError
      | Some srcs \<Rightarrow>
          (case (case block_downloaded p of
                   None \<Rightarrow> bitarray_new (ceil_div (length_p p) MARKED_BLOCK_SIZE)
                 | Some a \<Rightarrow> Inr a) of
             Inl e \<Rightarrow> Inl e
           | Inr arr0 \<Rightarrow>
               (let mark_begin = ceil_div (block_begin request) MARKED_BLOCK_SIZE;
                    mark_end =
                      (if block_begin request + block_length request = length_p p
                       then int (length arr0)
                       else (block_begin request + block_length request) div MARKED_BLOCK_SIZE);
                    arr = slice_set arr0 mark_begin mark_end True
                in case blocks_expected p of
                     None \<Rightarrow> Inl TypeError
                   | Some futs \<Rightarrow>
                       (case scan_expected arr source futs of
                          Inl e \<Rightarrow> Inl e
                        | Inr downloaded_blocks \<Rightarrow>
                            (case remove_downloaded futs downloaded_blocks of
                               Inl e \<Rightarrow> Inl e
                             | Inr futs' \<Rightarrow>
                                 Inr (p\<lparr>sources := Some (peers_add srcs source),
                                        block_downloaded := Some arr,
                                        blocks_expected := Some futs'\<rparr>,
                                      downloaded_blocks))))))"

definition are_all_blocks_downloaded :: "PieceInfo \<Rightarrow> bool" where
  "are_all_blocks_downloaded p =
     (downloaded p \<or>
      (case block_downloaded p of None \<Rightarrow> False | Some arr \<Rightarrow> list_all (\<lambda>x. x) arr))"

definition mark_as_downloaded :: "PieceInfo \<Rightarrow> error + PieceInfo" where
  "mark_as_downloaded p =
     (if downloaded p then Inl ValueError
      else Inr (p\<lparr>downloaded := True, sources := None, block_downloaded := None,
                  blocks_expected := None\<rparr>))"

subsection \<open>FileInfo and the file tree\<close>

record FileInfo =
  length_f :: int
  path :: "string list"
  md5sum :: "string option"
  offset :: "int option"
  selected_f :: bool

definition FileInfo_init :: "int \<Rightarrow> string list \<Rightarrow> string option \<Rightarrow> FileInfo" where
  "FileInfo_init len p m =
     \<lparr>length_f = len, path = p, md5sum = m, offset = None, selected_f = True\<rparr>"

text \<open>
  A node of \<^verbatim>\<open>_file_tree\<close> is a FileInfo object or a dict from names to nodes. The
  FileInfo objects are the ones of \<^verbatim>\<open>self.files\<close>, so a leaf is the position of its
  file in that list. A dict keeps its insertion order; it is an association list.
\<close>

datatype FileTreeNode = File nat | Dir "(string \<times> FileTreeNode) list"

text \<open>\<^verbatim>\<open>d[k] = v\<close>: an existing key keeps its place, a new key goes last.\<close>

fun dict_set :: "(string \<times> 'v) list \<Rightarrow> string \<Rightarrow> 'v \<Rightarrow> (string \<times> 'v) list" where
  "dict_set [] k v = [(k, v)]"
| "dict_set ((k', v') # kvs) k v =
     (if k' = k then (k, v) # kvs else (k', v') # dict_set kvs k v)"

text \<open>
  The inner loop and the final assignment of \<^verbatim>\<open>_create_file_tree\<close> for one file:
  \<open>elems\<close> is \<^verbatim>\<open>item.path[:-1]\<close> and \<open>name\<close> is \<^verbatim>\<open>item.path[-1]\<close>. A FileInfo met
  on the way has no \<^verbatim>\<open>setdefault\<close> (AttributeError) and no item assignment
  (TypeError).
\<close>

fun tree_insert :: "FileTreeNode \<Rightarrow> string list \<Rightarrow> string \<Rightarrow> nat \<Rightarrow> error + FileTreeNode" where
  "tree_insert directory [] name i =
     (case directory of
        File _ \<Rightarrow> Inl TypeError
      | Dir kvs \<Rightarrow> Inr (Dir (dict_set kvs name (File i))))"
| "tree_insert directory (elem # rest) name i =
     (case directory of
        File _ \<Rightarrow> Inl AttributeError
      | Dir kvs \<Rightarrow>
          (case tree_insert (case map_of kvs elem of None \<Rightarrow> Dir [] | Some child \<Rightarrow> child)
                  rest name i of
             Inl e \<Rightarrow> Inl e
           | Inr child' \<Rightarrow> Inr (Dir (dict_set kvs elem child'))))"

text \<open>
  \<^verbatim>\<open>_create_file_tree\<close>: \<open>i\<close> is the position of the next file, \<open>off\<close> the running
  offset. The result is the files with their offsets assigned and the tree.
\<close>

fun create_file_tree ::
  "FileInfo list \<Rightarrow> nat \<Rightarrow> int \<Rightarrow> FileTreeNode \<Rightarrow> error + (FileInfo list \<times> FileTreeNode)" where
  "create_file_tree [] i off tree = Inr ([], tree)"
| "create_file_tree (item # rest) i off tree =
     (case (if path item = [] then Inr (File i)
            else tree_insert tree (butlast (path item)) (last (path item)) i) of
        Inl e \<Rightarrow> Inl e
      | Inr tree' \<Rightarrow>
          (case create_file_tree rest (Suc i) (off + length_f item) tree' of
             Inl e \<Rightarrow> Inl e
           | Inr (fs, t) \<Rightarrow> Inr (item\<lparr>offset := Some off\<rparr> # fs, t)))"

text \<open>
  \<^verbatim>\<open>_get_file_tree_node\<close>: a missing key is a KeyError, turned into ValueError; a
  FileInfo is not subscriptable (TypeError, not caught).
\<close>

fun get_file_tree_node :: "FileTreeNode \<Rightarrow> string list \<Rightarrow> error + FileTreeNode" where
  "get_file_tree_node node [] = Inr node"
| "get_file_tree_node node (elem # rest) =
     (case node of
        File _ \<Rightarrow> Inl TypeError
      | Dir kvs \<Rightarrow>
          (case map_of kvs elem of
             None \<Rightarrow> Inl ValueError
           | Some child \<Rightarrow> get_file_tree_node child rest))"

fun traverse_nodes :: "FileTreeNode \<Rightarrow> nat list" where
  "traverse_nodes (File i) = [i]"
| "traverse_nodes (Dir kvs) = concat (map (\<lambda>kv. traverse_nodes (snd kv)) kvs)"

subsection \<open>DownloadInfo\<close>

text \<open>
  \<open>private_d\<close> is the attribute \<^verbatim>\<open>private\<close>. The session statistics read the clock
  and take no part in the operations below; they are left out.
\<close>

record DownloadInfo =
  info_hash :: string
  piece_length :: int
  suggested_name :: string
  files :: "FileInfo list"
  file_tree :: FileTreeNode
  private_d :: bool
  pieces :: "PieceInfo list"
  interesting_pieces :: "int list option"
  downloaded_piece_count :: int
  complete :: bool
  host_distrust_rates :: "string \<rightharpoonup> int"


definition piece_count :: "DownloadInfo \<Rightarrow> int" where
  "piece_count dl = int (length (pieces dl))"

text \<open>
  \<^verbatim>\<open>DownloadInfo.__init__\<close>. The file tree is built first; \<^verbatim>\<open>assert piece_hashes\<close>
  rejects an empty list; the pieces are built; then the count is checked against
  \<^verbatim>\<open>ceil(self.total_size / piece_length)\<close>, where the division raises for a zero piece
  length.
\<close>

definition DownloadInfo_init ::
  "string \<Rightarrow> int \<Rightarrow> string list \<Rightarrow> string \<Rightarrow> FileInfo list \<Rightarrow> bool \<Rightarrow> error + DownloadInfo" where
  "DownloadInfo_init ih pl piece_hashes name fs priv =
     (case create_file_tree fs 0 0 (Dir []) of
        Inl e \<Rightarrow> Inl e
      | Inr (fs', tree) \<Rightarrow>
          if piece_hashes = [] then Inl AssertionError
          else
            (let total = sum_list (map length_f fs');
                 ps = map (\<lambda>item. PieceInfo_init item pl) (butlast piece_hashes);
                 last_piece_length = total - (int (length piece_hashes) - 1) * pl;
                 ps' = ps @ [PieceInfo_init (last piece_hashes) last_piece_length];
                 count = int (length piece_hashes)
             in case py_ceil_truediv total pl of
                  Inl e \<Rightarrow> Inl e
                | Inr c \<Rightarrow>
                    if c \<noteq> count then Inl ValueError
                    else Inr \<lparr>info_hash = ih, piece_length = pl, suggested_name = name,
                              files = fs', file_tree = tree, private_d = priv, pieces = ps',
                              interesting_pieces = None, downloaded_piece_count = 0,
                              complete = False, host_distrust_rates = Map.empty\<rparr>))"

text \<open>
  \<^verbatim>\<open>select_files\<close> mutates the object step by step and can raise in the middle, so a
  raise carries the object as it is at that moment: \<open>Inl (e, dl)\<close>.

  The loop over the leaves of one path: each leaf is marked and its segment appended.
  A leaf always refers to a file of the list (the tree is built from it); for a
  position outside the list, which no constructed object has, nothing is done. An
  offset is always assigned in a constructed object; for \<open>None\<close> the later arithmetic
  of the source raises TypeError, raised here at once.
\<close>

fun collect_nodes ::
  "FileInfo list \<Rightarrow> nat list \<Rightarrow> bool \<Rightarrow> (int \<times> int) list
    \<Rightarrow> (error \<times> FileInfo list) + (FileInfo list \<times> (int \<times> int) list)" where
  "collect_nodes fs [] inc segments = Inr (fs, segments)"
| "collect_nodes fs (i # rest) inc segments =
     (if i < length fs then
        (case offset (fs ! i) of
           None \<Rightarrow> Inl (TypeError, fs[i := (fs ! i)\<lparr>selected_f := inc\<rparr>])
         | Some off \<Rightarrow>
             collect_nodes (fs[i := (fs ! i)\<lparr>selected_f := inc\<rparr>]) rest inc
               (segments @ [(off, length_f (fs ! i))]))
      else collect_nodes fs rest inc segments)"

fun collect_segments ::
  "FileTreeNode \<Rightarrow> FileInfo list \<Rightarrow> string list list \<Rightarrow> bool \<Rightarrow> (int \<times> int) list
    \<Rightarrow> (error \<times> FileInfo list) + (FileInfo list \<times> (int \<times> int) list)" where
  "collect_segments tree fs [] inc segments = Inr (fs, segments)"
| "collect_segments tree fs (p # rest) inc segments =
     (case get_file_tree_node tree p of
        Inl e \<Rightarrow> Inl (e, fs)
      | Inr node \<Rightarrow>
          (case collect_nodes fs (traverse_nodes node) inc segments of
             Inl r \<Rightarrow> Inl r
           | Inr (fs', segments') \<Rightarrow> collect_segments tree fs' rest inc segments'))"

text \<open>The merge of the sorted segments: one step of the loop, and the loop.\<close>

definition unite_step :: "(int \<times> int) list \<Rightarrow> int \<times> int \<Rightarrow> (int \<times> int) list" where
  "unite_step united_segments cur_segment =
     (if united_segments \<noteq> []
         \<and> fst (last united_segments) + snd (last united_segments) = fst cur_segment
      then butlast united_segments
             @ [(fst (last united_segments), snd (last united_segments) + snd cur_segment)]
      else united_segments @ [cur_segment])"

definition unite_segments :: "(int \<times> int) list \<Rightarrow> (int \<times> int) list" where
  "unite_segments segments = foldl unite_step [] (sort segments)"

text \<open>
  \<^verbatim>\<open>self.pieces[index].selected = include_paths\<close> for the indices of one range; a
  negative index counts from the end and an index outside the list raises IndexError.
\<close>

fun mark_indices ::
  "PieceInfo list \<Rightarrow> int list \<Rightarrow> bool \<Rightarrow> (error \<times> PieceInfo list) + PieceInfo list" where
  "mark_indices ps [] inc = Inr ps"
| "mark_indices ps (index # rest) inc =
     (let n = int (length ps); j = (if index < 0 then index + n else index)
      in if 0 \<le> j \<and> j < n
         then mark_indices (ps[nat j := (ps ! nat j)\<lparr>selected_p := inc\<rparr>]) rest inc
         else Inl (IndexError, ps))"

text \<open>
  The piece range of one merged segment: \<^verbatim>\<open>piece_begin\<close> and \<^verbatim>\<open>piece_end\<close> of the
  last loop of \<^verbatim>\<open>select_files\<close>. The float division can raise.
\<close>

definition piece_range :: "int \<Rightarrow> bool \<Rightarrow> int \<times> int \<Rightarrow> error + (int \<times> int)" where
  "piece_range pl include_paths seg =
     (if include_paths
      then (case py_ceil_truediv (fst seg + snd seg) pl of
              Inl e \<Rightarrow> Inl e
            | Inr piece_end \<Rightarrow> Inr (fst seg div pl, piece_end))
      else (case py_ceil_truediv (fst seg) pl of
              Inl e \<Rightarrow> Inl e
            | Inr piece_begin \<Rightarrow> Inr (piece_begin, (fst seg + snd seg) div pl)))"

fun mark_segments ::
  "int \<Rightarrow> PieceInfo list \<Rightarrow> (int \<times> int) list \<Rightarrow> bool
    \<Rightarrow> (error \<times> PieceInfo list) + PieceInfo list" where
  "mark_segments pl ps [] inc = Inr ps"
| "mark_segments pl ps (seg # rest) inc =
     (if pl = 0 then Inl (ZeroDivisionError, ps)
      else
        (case piece_range pl inc seg of
           Inl e \<Rightarrow> Inl (e, ps)
         | Inr r \<Rightarrow>
             (case mark_indices ps [fst r .. snd r - 1] inc of
                Inl x \<Rightarrow> Inl x
              | Inr ps' \<Rightarrow> mark_segments pl ps' rest inc)))"

definition select_files ::
  "DownloadInfo \<Rightarrow> string list list \<Rightarrow> string \<Rightarrow> (error \<times> DownloadInfo) + DownloadInfo" where
  "select_files dl paths mode =
     (if mode \<noteq> ''whitelist'' \<and> mode \<noteq> ''blacklist'' then Inl (ValueError, dl)
      else
        (let include_paths = (mode = ''whitelist'')
         in if length (files dl) = 1 \<and> path (files dl ! 0) = [] then Inl (ValueError, dl)
            else
              (let ps1 = map (\<lambda>info. info\<lparr>selected_p := \<not> include_paths\<rparr>) (pieces dl);
                   fs1 = map (\<lambda>info. info\<lparr>selected_f := \<not> include_paths\<rparr>) (files dl)
               in case collect_segments (file_tree dl) fs1 paths include_paths [] of
                    Inl (e, fs2) \<Rightarrow> Inl (e, dl\<lparr>pieces := ps1, files := fs2\<rparr>)
                  | Inr (fs2, segments) \<Rightarrow>
                      if (include_paths \<and> segments = [])
                         \<or> (\<not> include_paths \<and> length segments = length fs2)
                      then Inl (ValueError, dl\<lparr>pieces := ps1, files := fs2\<rparr>)
                      else
                        (case mark_segments (piece_length dl) ps1 (unite_segments segments)
                                include_paths of
                           Inl (e, ps2) \<Rightarrow> Inl (e, dl\<lparr>pieces := ps2, files := fs2\<rparr>)
                         | Inr ps2 \<Rightarrow> Inr (dl\<lparr>pieces := ps2, files := fs2\<rparr>)))))"

text \<open>
  \<^verbatim>\<open>DownloadInfo.reset_run_state\<close>: \<^verbatim>\<open>copy.copy\<close> gives a new object with the same
  attribute values, which is the same record.
\<close>

definition DownloadInfo_reset_run_state :: "DownloadInfo \<Rightarrow> DownloadInfo" where
  "DownloadInfo_reset_run_state dl =
     dl\<lparr>pieces := map PieceInfo_reset_run_state (map (\<lambda>info. info) (pieces dl)),
        interesting_pieces := Some []\<rparr>"

text \<open>\<^verbatim>\<open>xs[i]\<close> of Python.\<close>

definition list_get :: "'a list \<Rightarrow> int \<Rightarrow> error + 'a" where
  "list_get xs i =
     (let n = int (length xs); j = (if i < 0 then i + n else i)
      in if 0 \<le> j \<and> j < n then Inr (xs ! nat j) else Inl IndexError)"

definition bytes_left :: "DownloadInfo \<Rightarrow> error + int" where
  "bytes_left dl =
     (let result = (piece_count dl - downloaded_piece_count dl) * piece_length dl;
          last_piece_index = piece_count dl - 1
      in case list_get (pieces dl) last_piece_index of
           Inl e \<Rightarrow> Inl e
         | Inr last_piece \<Rightarrow>
             Inr (if \<not> downloaded last_piece
                  then result + (length_p last_piece - piece_length dl)
                  else result))"

definition increase_distrust :: "DownloadInfo \<Rightarrow> Peer \<Rightarrow> DownloadInfo" where
  "increase_distrust dl peer =
     dl\<lparr>host_distrust_rates :=
          (host_distrust_rates dl)
            (host peer \<mapsto>
               (case host_distrust_rates dl (host peer) of None \<Rightarrow> 0 | Some c \<Rightarrow> c) + 1)\<rparr>"

definition is_banned :: "DownloadInfo \<Rightarrow> Peer \<Rightarrow> bool" where
  "is_banned dl peer =
     (case host_distrust_rates dl (host peer) of
        None \<Rightarrow> False
      | Some c \<Rightarrow> DISTRUST_RATE_TO_BAN \<le> c)"

subsection \<open>The byte segments of the files\<close>


subsection \<open>An example transfer\<close>

text \<open>
  Two files, \<^verbatim>\<open>a\<close> of 1500 bytes and \<^verbatim>\<open>d/b\<close> of 1000 bytes, as
  \<^verbatim>\<open>FileInfo.__init__\<close> returns them; with a piece length of 1024 they make three
  pieces, the second of which holds the end of the first file and the start of the
  second.
\<close>

abbreviation example_files :: "FileInfo list" where
  "example_files \<equiv> [FileInfo_init 1500 [''a''] None, FileInfo_init 1000 [''d'', ''b''] None]"

text \<open>The transfer the constructor builds from these files and three piece hashes.\<close>

abbreviation example_dl :: DownloadInfo where
  "example_dl \<equiv>
     \<lparr>info_hash = ''ih'', piece_length = 1024, suggested_name = ''name'',
      files = [(FileInfo_init 1500 [''a''] None)\<lparr>offset := Some 0\<rparr>,
               (FileInfo_init 1000 [''d'', ''b''] None)\<lparr>offset := Some 1500\<rparr>],
      file_tree = Dir [(''a'', File 0), (''d'', Dir [(''b'', File 1)])],
      private_d = False,
      pieces = [PieceInfo_init ''h0'' 1024, PieceInfo_init ''h1'' 1024, PieceInfo_init ''h2'' 452],
      interesting_pieces = None, downloaded_piece_count = 0, complete = False,
      host_distrust_rates = Map.empty\<rparr>"


section \<open>Auxiliary facts\<close>

lemma bit_length_bounds:
  "0 < n \<Longrightarrow> 2 ^ (bit_length n - 1) \<le> n \<and> n < 2 ^ bit_length n"
proof (induction n rule: bit_length.induct)
  case (1 n)
  show ?case
  proof (cases "n div 2 = 0")
    case True
    with 1(2) have "n = 1" by presburger
    moreover have "bit_length (Suc 0) = 1"
      by (simp add: bit_length.simps [of "Suc 0"] bit_length.simps [of 0])
    ultimately show ?thesis by simp
  next
    case False
    with 1 have ih: "2 ^ (bit_length (n div 2) - 1) \<le> n div 2" "n div 2 < 2 ^ bit_length (n div 2)"
      by auto
    have pos: "0 < bit_length (n div 2)"
      using False by (simp add: bit_length.simps [of "n div 2"])
    have bl: "bit_length n = Suc (bit_length (n div 2))"
      using 1(2) by (simp add: bit_length.simps [of n])
    have "(2::nat) ^ (bit_length n - 1) = 2 * 2 ^ (bit_length (n div 2) - 1)"
      using pos by (simp add: bl flip: power_Suc)
    also have "\<dots> \<le> 2 * (n div 2)" using ih(1) by simp
    also have "\<dots> \<le> n" by simp
    finally have a: "2 ^ (bit_length n - 1) \<le> n" .
    have "n < 2 * (n div 2 + 1)" by presburger
    also have "\<dots> \<le> 2 * 2 ^ bit_length (n div 2)" using ih(2) by simp
    finally have b: "n < 2 ^ bit_length n" by (simp add: bl)
    from a b show ?thesis ..
  qed
qed

lemma ceil_div_bounds:
  assumes "0 < b"
  shows "(ceil_div a b - 1) * b < a" and "a \<le> ceil_div a b * b"
proof -
  have e: "- a = b * ((- a) div b) + (- a) mod b" by simp
  have r: "0 \<le> (- a) mod b" "(- a) mod b < b" using assms by simp_all
  have "ceil_div a b * b = - (b * ((- a) div b))" by (simp add: ceil_div_def)
  also have "\<dots> = a + (- a) mod b" using e by linarith
  finally have k: "ceil_div a b * b = a + (- a) mod b" .
  show "(ceil_div a b - 1) * b < a" using k r by (simp add: algebra_simps)
  show "a \<le> ceil_div a b * b" using k r by simp
qed

lemma ceil_div_unique:
  assumes "0 < d" "(k - 1) * d < m" "m \<le> k * d"
  shows "ceil_div m d = k"
proof -
  have "(- m) div d = - k"
  proof (rule int_div_pos_eq)
    show "- m = d * (- k) + (k * d - m)" by (simp add: algebra_simps)
    show "0 \<le> k * d - m" using assms(3) by simp
    show "k * d - m < d" using assms(2) by (simp add: algebra_simps)
  qed
  then show ?thesis by (simp add: ceil_div_def)
qed

lemma round_half_even_le:
  assumes "0 < den" "num \<le> K * den"
  shows "round_half_even num den \<le> K"
proof -
  have e: "num = den * (num div den) + num mod den" by simp
  have r: "0 \<le> num mod den" "num mod den < den" using assms(1) by simp_all
  have "num div den \<le> (K * den) div den" using assms by (intro zdiv_mono1)
  then have m0: "num div den \<le> K" using assms(1) by simp
  show ?thesis
  proof (cases "num div den = K")
    case True
    then have "num = den * K + num mod den" using e by simp
    with assms(2) r have "num mod den = 0" by (simp add: algebra_simps)
    then show ?thesis using True assms(1) by (simp add: round_half_even_def Let_def)
  next
    case False
    with m0 have "num div den + 1 \<le> K" by simp
    then show ?thesis by (simp add: round_half_even_def Let_def)
  qed
qed

lemma round_half_even_ge:
  assumes "0 < den" "(2 * K + 1) * den < 2 * num"
  shows "K + 1 \<le> round_half_even num den"
proof -
  have e: "num = den * (num div den) + num mod den" by simp
  have r: "0 \<le> num mod den" "num mod den < den" using assms(1) by simp_all
  have "K * den \<le> num" using assms by (simp add: algebra_simps)
  then have "(K * den) div den \<le> num div den" using assms(1) by (intro zdiv_mono1)
  then have m0: "K \<le> num div den" using assms(1) by simp
  show ?thesis
  proof (cases "num div den = K")
    case True
    then have "num mod den = num - den * K" using e by (simp add: algebra_simps)
    then have "den < 2 * (num mod den)" using assms(2) by (simp add: algebra_simps)
    then show ?thesis using True by (simp add: round_half_even_def Let_def)
  next
    case False
    with m0 have "K + 1 \<le> num div den" by simp
    then show ?thesis by (simp add: round_half_even_def Let_def)
  qed
qed


lemma bit_length_int_bounds:
  assumes "0 < (a::int)"
  shows "2 ^ (bit_length (nat a) - 1) \<le> a" and "a < 2 ^ bit_length (nat a)"
    and "0 < bit_length (nat a)"
proof -
  from assms have p: "0 < nat a" by simp
  note bb = bit_length_bounds [OF p]
  have "int (2 ^ (bit_length (nat a) - 1)) \<le> int (nat a)" using bb by (simp only: of_nat_le_iff)
  then show "2 ^ (bit_length (nat a) - 1) \<le> a" using assms by simp
  have "int (nat a) < int (2 ^ bit_length (nat a))" using bb by (simp only: of_nat_less_iff)
  then show "a < 2 ^ bit_length (nat a)" using assms by simp
  show "0 < bit_length (nat a)"
    using p by (simp add: bit_length.simps [of "nat a"])
qed

lemma py_ceil_truediv_exact:
  assumes a: "0 \<le> a" "a < 2 ^ 53" and b: "0 < b" "b < 2 ^ 53"
  shows "py_ceil_truediv a b = Inr (ceil_div a b)"
proof (cases "a = 0")
  case True
  then show ?thesis using b by (simp add: py_ceil_truediv_def ceil_div_def)
next
  case False
  with a have apos: "0 < a" by simp
  define na where "na = bit_length (nat a)"
  define nb where "nb = bit_length (nat b)"
  note ba = bit_length_int_bounds [OF apos, folded na_def]
  note bb = bit_length_int_bounds [OF b(1), folded nb_def]
  have "(2::int) ^ (na - 1) < 2 ^ 53" using ba(1) a(2) by linarith
  then have "na - 1 < 53" by (rule power_less_imp_less_exp [rotated]) simp
  then have na53: "na \<le> 53" by simp
  define s0 where "s0 = 53 + nb - na"
  have s0pos: "0 < s0" using na53 bb(3) by (simp add: s0_def)
  have e0: "int na - int nb - 53 = - int s0" using na53 by (simp add: s0_def)
  have sn0: "scale_num a (- int s0) = a * 2 ^ s0" and sd0: "scale_den b (- int s0) = b"
    using s0pos by (simp_all add: scale_num_def scale_den_def)
  have N0: "2 ^ 52 * b \<le> a * 2 ^ s0"
  proof -
    have "2 ^ 52 * b \<le> 2 ^ 52 * 2 ^ nb" using bb(2) by simp
    also have "\<dots> = (2::int) ^ (52 + nb)" by (simp only: power_add)
    also have "52 + nb = (na - 1) + s0" using ba(3) na53 by (simp add: s0_def)
    also have "(2::int) ^ ((na - 1) + s0) = 2 ^ (na - 1) * 2 ^ s0" by (simp only: power_add)
    also have "\<dots> \<le> a * 2 ^ s0" using ba(1) by (intro mult_right_mono) simp_all
    finally show ?thesis .
  qed
  define e where "e = (if 2 ^ 53 * b \<le> a * 2 ^ s0 then - int s0 + 1 else - int s0)"
  have s0le: "s0 \<le> 106" using na53 bb(3) ba(3) bb(2) b(2)
  proof -
    have "(2::int) ^ (nb - 1) < 2 ^ 53" using bb(1) b(2) by linarith
    then have "nb - 1 < 53" by (rule power_less_imp_less_exp [rotated]) simp
    then have "nb \<le> 53" by simp
    then show ?thesis by (simp add: s0_def)
  qed
  have fe: "float_exponent a b = e"
    using apos b(1) s0le
    by (simp add: float_exponent_def Let_def e0 sn0 sd0 e_def flip: na_def nb_def)
  have ele: "e \<le> 0" using s0pos by (simp add: e_def)
  define s where "s = nat (- e)"
  have es: "e = - int s" using ele by (simp add: s_def)
  have sn: "scale_num a e = a * 2 ^ s" and sd: "scale_den b e = b"
    using ele by (auto simp: scale_num_def scale_den_def s_def)
  have N: "2 ^ 52 * b \<le> a * 2 ^ s"
  proof (cases "2 ^ 53 * b \<le> a * 2 ^ s0")
    case True
    then have "s = s0 - 1" using s0pos by (simp add: s_def e_def)
    then have "s0 = Suc s" using s0pos by simp
    with True show ?thesis by simp
  next
    case False
    then have "s = s0" by (simp add: s_def e_def)
    with N0 show ?thesis by simp
  qed
  define P :: int where "P = 2 ^ s"
  have Ppos: "0 < P" by (simp add: P_def)
  have bP: "b < 2 * P"
  proof -
    have 1: "a * P < 2 ^ 53 * P" using a(2) Ppos by (intro mult_strict_right_mono)
    have 2: "2 ^ 52 * b \<le> a * P" using N by (simp only: P_def)
    from 1 2 show ?thesis by simp
  qed
  define k where "k = ceil_div a b"
  note kb = ceil_div_bounds [OF b(1), of a, folded k_def]
  define m where "m = round_half_even (a * P) b"
  have fm: "float_mantissa a b = m"
    using apos b(1) by (simp add: float_mantissa_def fe sn sd m_def P_def)
  have up: "m \<le> k * P"
  proof -
    have "a * P \<le> (k * b) * P" using kb(2) Ppos by (intro mult_right_mono) simp_all
    then have "a * P \<le> (k * P) * b" by (simp add: algebra_simps)
    with b(1) show ?thesis unfolding m_def by (rule round_half_even_le)
  qed
  have lo: "(k - 1) * P + 1 \<le> m"
  proof -
    have "(k - 1) * b + 1 \<le> a" using kb(1) by simp
    then have "((k - 1) * b + 1) * (2 * P) \<le> a * (2 * P)"
      using Ppos by (intro mult_right_mono) simp_all
    then have "(2 * ((k - 1) * P) + 1) * b < 2 * (a * P)"
      using bP by (simp add: algebra_simps)
    with b(1) show ?thesis unfolding m_def by (rule round_half_even_ge)
  qed
  have cd: "ceil_div m P = k"
    using Ppos lo up by (intro ceil_div_unique) simp_all
  have res: "(if 0 \<le> e then m * 2 ^ nat e else ceil_div m (2 ^ nat (- e))) = ceil_div m P"
  proof (cases "e = 0")
    case True
    then have "P = 1" by (simp add: P_def s_def)
    with True show ?thesis by (simp add: ceil_div_def)
  next
    case False
    with ele show ?thesis by (simp add: P_def s_def)
  qed
  have "py_ceil_truediv a b = Inr (if 0 \<le> e then m * 2 ^ nat e else ceil_div m (2 ^ nat (- e)))"
    using apos b(1) ele by (simp add: py_ceil_truediv_def fe fm Let_def)
  then show ?thesis by (simp only: res cd k_def)
qed


lemma py_ceil_truediv_zero: "py_ceil_truediv a 0 = Inl ZeroDivisionError"
  by (simp add: py_ceil_truediv_def)

lemma py_ceil_truediv_MARKED_BLOCK_SIZE:
  "0 \<le> a \<Longrightarrow> a < 2 ^ 53 \<Longrightarrow>
   py_ceil_truediv a MARKED_BLOCK_SIZE = Inr (ceil_div a MARKED_BLOCK_SIZE)"
  by (rule py_ceil_truediv_exact) (simp_all add: MARKED_BLOCK_SIZE_def)


lemma create_file_tree_lengths:
  "create_file_tree fs i off tree = Inr (fs', t) \<Longrightarrow>
     map length_f fs' = map length_f fs \<and> map selected_f fs' = map selected_f fs \<and> map path fs' = map path fs"
  by (induction fs arbitrary: i off tree fs' t) (auto split: sum.splits if_splits prod.splits)

lemma distrust_count:
  "host_distrust_rates (foldl increase_distrust dl ps) h =
     (if \<exists>q\<in>set ps. host q = h then Some ((case host_distrust_rates dl h of None \<Rightarrow> 0 | Some c \<Rightarrow> c) + int (length (filter (\<lambda>q. host q = h) ps)))
      else host_distrust_rates dl h)"
  apply (induction ps arbitrary: dl)
   apply (auto simp: increase_distrust_def split: option.splits)
  done

lemma init_fields:
  assumes "DownloadInfo_init ih pl hs name fs priv = Inr dl"
  shows "piece_length dl = pl" "pl \<noteq> 0" "hs \<noteq> []"
    "map length_f (files dl) = map length_f fs"
    "map selected_f (files dl) = map selected_f fs"
    "pieces dl = map (\<lambda>item. PieceInfo_init item pl) (butlast hs)
        @ [PieceInfo_init (last hs) (sum_list (map length_f fs) - (int (length hs) - 1) * pl)]"
    "py_ceil_truediv (sum_list (map length_f fs)) pl = Inr (int (length hs))"
    "host_distrust_rates dl = Map.empty"
    "downloaded_piece_count dl = 0"
proof -
  from assms obtain fs' tree where
    c: "create_file_tree fs 0 0 (Dir []) = Inr (fs', tree)"
    by (auto simp: DownloadInfo_init_def split: sum.splits prod.splits)
  note l = create_file_tree_lengths [OF c]
  have tot: "sum_list (map length_f fs') = sum_list (map length_f fs)" using l by simp
  from assms c show hs: "hs \<noteq> []"
    by (auto simp: DownloadInfo_init_def split: if_splits)
  from assms c hs obtain cnt where
    p: "py_ceil_truediv (sum_list (map length_f fs)) pl = Inr cnt"
    by (auto simp: DownloadInfo_init_def Let_def tot split: sum.splits)
  from assms c hs p have cnt: "cnt = int (length hs)"
    by (auto simp: DownloadInfo_init_def Let_def tot split: if_splits)
  from p show "pl \<noteq> 0" by (auto simp: py_ceil_truediv_zero)
  from p cnt show "py_ceil_truediv (sum_list (map length_f fs)) pl = Inr (int (length hs))"
    by simp
  from assms c hs p cnt have d: "dl =
      \<lparr>info_hash = ih, piece_length = pl, suggested_name = name,
       files = fs', file_tree = tree, private_d = priv,
       pieces = map (\<lambda>item. PieceInfo_init item pl) (butlast hs)
          @ [PieceInfo_init (last hs) (sum_list (map length_f fs) - (int (length hs) - 1) * pl)],
       interesting_pieces = None, downloaded_piece_count = 0,
       complete = False, host_distrust_rates = Map.empty\<rparr>"
    by (simp add: DownloadInfo_init_def Let_def tot)
  show "piece_length dl = pl" "map length_f (files dl) = map length_f fs"
    "map selected_f (files dl) = map selected_f fs"
    "pieces dl = map (\<lambda>item. PieceInfo_init item pl) (butlast hs)
        @ [PieceInfo_init (last hs) (sum_list (map length_f fs) - (int (length hs) - 1) * pl)]"
    "host_distrust_rates dl = Map.empty" "downloaded_piece_count dl = 0"
    using l by (simp_all add: d)
qed

lemma example_init:
  "DownloadInfo_init ''ih'' 1024 [''h0'', ''h1'', ''h2''] ''name'' example_files False =
     Inr \<lparr>info_hash = ''ih'', piece_length = 1024, suggested_name = ''name'',
          files = [(FileInfo_init 1500 [''a''] None)\<lparr>offset := Some 0\<rparr>,
                   (FileInfo_init 1000 [''d'', ''b''] None)\<lparr>offset := Some 1500\<rparr>],
          file_tree = Dir [(''a'', File 0), (''d'', Dir [(''b'', File 1)])],
          private_d = False,
          pieces = [PieceInfo_init ''h0'' 1024, PieceInfo_init ''h1'' 1024, PieceInfo_init ''h2'' 452],
          interesting_pieces = None, downloaded_piece_count = 0, complete = False,
          host_distrust_rates = Map.empty\<rparr>"
  by (simp add: DownloadInfo_init_def FileInfo_init_def py_ceil_truediv_exact ceil_div_def)
































lemmas select_files_eval = select_files_def Let_def FileInfo_init_def PieceInfo_init_def reset_content_def
  unite_segments_def unite_step_def piece_range_def py_ceil_truediv_exact ceil_div_def
  upto.simps


lemma example_whitelist_empty:
  "select_files example_dl [] ''whitelist'' =
     Inl (ValueError, example_dl\<lparr>
       pieces := [(PieceInfo_init ''h0'' 1024)\<lparr>selected_p := False\<rparr>,
                  (PieceInfo_init ''h1'' 1024)\<lparr>selected_p := False\<rparr>,
                  (PieceInfo_init ''h2'' 452)\<lparr>selected_p := False\<rparr>],
       files := [(FileInfo_init 1500 [''a''] None)\<lparr>offset := Some 0, selected_f := False\<rparr>,
               (FileInfo_init 1000 [''d'', ''b''] None)\<lparr>offset := Some 1500, selected_f := False\<rparr>]\<rparr>)"
  by (simp add: select_files_eval)

lemma example_blacklist_all:
  "select_files example_dl [[''a''], [''d'']] ''blacklist'' =
     Inl (ValueError, example_dl\<lparr>
       files := [(FileInfo_init 1500 [''a''] None)\<lparr>offset := Some 0, selected_f := False\<rparr>,
               (FileInfo_init 1000 [''d'', ''b''] None)\<lparr>offset := Some 1500, selected_f := False\<rparr>]\<rparr>)"
  by (simp add: select_files_eval)



lemma select_files_early_rejection:
  "(mode \<noteq> ''whitelist'' \<and> mode \<noteq> ''blacklist'' \<longrightarrow>
      select_files dl paths mode = Inl (ValueError, dl))
   \<and> (length (files dl) = 1 \<and> path (files dl ! 0) = [] \<longrightarrow>
      select_files dl paths mode = Inl (ValueError, dl))"
  by (simp add: select_files_def Let_def)

section \<open>Properties\<close>

text \<open>
  C1, as amended: two plain BlockRequest objects with equal \<open>piece_index\<close>,
  \<open>block_begin\<close> and \<open>block_length\<close> are equal and have equal hashes. A
  BlockRequestFuture compares and hashes by object identity: it equals itself whatever
  its resolution state, two futures are equal only when they are the same object, and
  a set of futures finds and removes an entry only through that same object.
\<close>

theorem BlockRequest_equality_spec:
  "(piece_index a = piece_index b \<and> block_begin a = block_begin b
      \<and> block_length a = block_length b
      \<longrightarrow> BlockRequest_eq a b \<and> BlockRequest_hash h a = BlockRequest_hash h b)
   \<and> (BlockRequestFuture_eq f g \<longleftrightarrow> obj_id f = obj_id g)
   \<and> BlockRequestFuture_eq f (f\<lparr>fut_state := st\<rparr>)
   \<and> BlockRequestFuture_hash h' (f\<lparr>fut_state := st\<rparr>) = BlockRequestFuture_hash h' f
   \<and> (futures_contains s g \<longleftrightarrow> (\<exists>x \<in> set s. obj_id g = obj_id x))
   \<and> (futures_contains s g \<longrightarrow>
        futures_remove s g = Inr (filter (\<lambda>x. obj_id g \<noteq> obj_id x) s))
   \<and> (\<not> futures_contains s g \<longrightarrow> futures_remove s g = Inl KeyError)"
  by (auto simp: BlockRequest_eq_def BlockRequest_hash_def BlockRequestFuture_eq_def
      BlockRequestFuture_hash_def futures_contains_def futures_remove_def list_ex_iff)

theorem BlockRequest_equality_spec_witness:
  "BlockRequest_eq \<lparr>piece_index = 3, block_begin = 0, block_length = 16384\<rparr>
       \<lparr>piece_index = 3, block_begin = 0, block_length = 16384\<rparr>
   \<and> futures_contains [BlockRequestFuture_init 7 3 0 16384]
        ((BlockRequestFuture_init 7 3 0 16384)\<lparr>fut_state := CANCELLED\<rparr>)
   \<and> futures_remove [BlockRequestFuture_init 7 3 0 16384, BlockRequestFuture_init 8 3 0 16384]
        ((BlockRequestFuture_init 7 3 0 16384)\<lparr>fut_state := CANCELLED\<rparr>)
       = Inr [BlockRequestFuture_init 8 3 0 16384]"
  using BlockRequest_equality_spec [where
      a = "\<lparr>piece_index = 3, block_begin = 0, block_length = 16384\<rparr>" and
      b = "\<lparr>piece_index = 3, block_begin = 0, block_length = 16384\<rparr>" and
      f = "BlockRequestFuture_init 7 3 0 16384" and
      s = "[BlockRequestFuture_init 7 3 0 16384, BlockRequestFuture_init 8 3 0 16384]" and
      g = "(BlockRequestFuture_init 7 3 0 16384)\<lparr>fut_state := CANCELLED\<rparr>"]
  by (simp add: BlockRequestFuture_init_def futures_contains_def BlockRequestFuture_eq_def)

text \<open>
  C1 as stated fails: two futures built for the same piece, begin and length are
  different objects, so they are not equal, the one is not a member of a set holding
  the other, and removing it raises KeyError.
\<close>

theorem BlockRequestFuture_eq_counterexample:
  "piece_index (BlockRequestFuture_init 0 3 0 16384) = piece_index (BlockRequestFuture_init 1 3 0 16384)
   \<and> block_begin (BlockRequestFuture_init 0 3 0 16384) = block_begin (BlockRequestFuture_init 1 3 0 16384)
   \<and> block_length (BlockRequestFuture_init 0 3 0 16384) = block_length (BlockRequestFuture_init 1 3 0 16384)
   \<and> \<not> BlockRequestFuture_eq (BlockRequestFuture_init 0 3 0 16384) (BlockRequestFuture_init 1 3 0 16384)
   \<and> \<not> futures_contains [BlockRequestFuture_init 0 3 0 16384] (BlockRequestFuture_init 1 3 0 16384)
   \<and> futures_remove [BlockRequestFuture_init 0 3 0 16384] (BlockRequestFuture_init 1 3 0 16384)
       = Inl KeyError"
  by (simp add: BlockRequestFuture_init_def BlockRequestFuture_eq_def futures_contains_def
      futures_remove_def)

text \<open>
  C2: \<^verbatim>\<open>select_files\<close> checks the mode and the single-file case before it touches
  anything (\<open>select_files_early_rejection\<close>), but the check for an empty whitelist or
  a blacklist of every file comes after the flags have been rewritten. On the example
  transfer, where every piece and file is selected, an empty whitelist raises
  ValueError and leaves every piece and every file deselected, and a blacklist of both
  files raises ValueError and leaves both files deselected.
\<close>

theorem select_files_rejection_mutates:
  "DownloadInfo_init ''ih'' 1024 [''h0'', ''h1'', ''h2''] ''name''
      [FileInfo_init 1500 [''a''] None, FileInfo_init 1000 [''d'', ''b''] None] False = Inr example_dl
   \<and> map selected_p (pieces example_dl) = [True, True, True]
   \<and> map selected_f (files example_dl) = [True, True]
   \<and> (\<exists>dl'. select_files example_dl [] ''whitelist'' = Inl (ValueError, dl')
         \<and> map selected_p (pieces dl') = [False, False, False]
         \<and> map selected_f (files dl') = [False, False])
   \<and> (\<exists>dl'. select_files example_dl [[''a''], [''d'']] ''blacklist'' = Inl (ValueError, dl')
         \<and> map selected_p (pieces dl') = [True, True, True]
         \<and> map selected_f (files dl') = [False, False])"
proof -
  have a: "DownloadInfo_init ''ih'' 1024 [''h0'', ''h1'', ''h2''] ''name''
      [FileInfo_init 1500 [''a''] None, FileInfo_init 1000 [''d'', ''b''] None] False = Inr example_dl"
    by (simp add: DownloadInfo_init_def FileInfo_init_def py_ceil_truediv_exact ceil_div_def)
  have b: "map selected_p (pieces example_dl) = [True, True, True]"
    "map selected_f (files example_dl) = [True, True]"
    by (simp_all add: PieceInfo_init_def reset_content_def FileInfo_init_def)
  have c: "\<exists>dl'. select_files example_dl [] ''whitelist'' = Inl (ValueError, dl')
         \<and> map selected_p (pieces dl') = [False, False, False]
         \<and> map selected_f (files dl') = [False, False]"
    by (intro exI conjI, rule example_whitelist_empty)
      (simp_all add: PieceInfo_init_def reset_content_def FileInfo_init_def)
  have d: "\<exists>dl'. select_files example_dl [[''a''], [''d'']] ''blacklist'' = Inl (ValueError, dl')
         \<and> map selected_p (pieces dl') = [True, True, True]
         \<and> map selected_f (files dl') = [False, False]"
    by (intro exI conjI, rule example_blacklist_all)
      (simp_all add: PieceInfo_init_def reset_content_def FileInfo_init_def)
  from a b c d show ?thesis by (intro conjI)
qed










text \<open>
  C6: \<^verbatim>\<open>mark_as_downloaded\<close> raises on a piece that is already downloaded; otherwise it
  sets \<open>downloaded\<close> and stores \<open>None\<close> (not an empty container) in the sources, the
  block bitfield and the pending set, and a second call on the result raises.
\<close>

theorem mark_as_downloaded_spec:
  "(downloaded p \<longrightarrow> mark_as_downloaded p = Inl ValueError) \<and>
   (\<not> downloaded p \<longrightarrow>
      (\<exists>p'. mark_as_downloaded p = Inr p' \<and> downloaded p' \<and> sources p' = None
          \<and> block_downloaded p' = None \<and> blocks_expected p' = None
          \<and> piece_hash p' = piece_hash p \<and> length_p p' = length_p p
          \<and> selected_p p' = selected_p p \<and> owners p' = owners p
          \<and> validating p' = validating p
          \<and> mark_as_downloaded p' = Inl ValueError))"
  by (simp add: mark_as_downloaded_def)

theorem mark_as_downloaded_spec_witness:
  "mark_as_downloaded (PieceInfo_init ''h'' 1500)
     = Inr ((PieceInfo_init ''h'' 1500)\<lparr>downloaded := True, sources := None,
              block_downloaded := None, blocks_expected := None\<rparr>)
   \<and> mark_as_downloaded ((PieceInfo_init ''h'' 1500)\<lparr>downloaded := True, sources := None,
              block_downloaded := None, blocks_expected := None\<rparr>) = Inl ValueError"
  using mark_as_downloaded_spec [of "PieceInfo_init ''h'' 1500"]
    mark_as_downloaded_spec [of "(PieceInfo_init ''h'' 1500)\<lparr>downloaded := True, sources := None,
              block_downloaded := None, blocks_expected := None\<rparr>"]
  by (simp add: PieceInfo_init_def reset_content_def mark_as_downloaded_def)

text \<open>
  C7: \<^verbatim>\<open>PieceInfo.reset_run_state\<close> empties \<open>owners\<close>, clears \<open>validating\<close> and
  makes the pending set empty, and leaves \<open>downloaded\<close>, \<open>sources\<close>, the block
  bitfield, \<open>selected\<close>, the hash and the length as they were;
  \<^verbatim>\<open>DownloadInfo.reset_run_state\<close> does this to a copy of every piece, so every piece
  keeps its \<open>downloaded\<close> flag and has no owners and no pending futures afterwards.
\<close>

theorem reset_run_state_spec:
  "owners (PieceInfo_reset_run_state p) = []
   \<and> \<not> validating (PieceInfo_reset_run_state p)
   \<and> blocks_expected (PieceInfo_reset_run_state p) = Some []
   \<and> downloaded (PieceInfo_reset_run_state p) = downloaded p
   \<and> sources (PieceInfo_reset_run_state p) = sources p
   \<and> block_downloaded (PieceInfo_reset_run_state p) = block_downloaded p
   \<and> selected_p (PieceInfo_reset_run_state p) = selected_p p
   \<and> piece_hash (PieceInfo_reset_run_state p) = piece_hash p
   \<and> length_p (PieceInfo_reset_run_state p) = length_p p
   \<and> pieces (DownloadInfo_reset_run_state dl) = map PieceInfo_reset_run_state (pieces dl)
   \<and> map downloaded (pieces (DownloadInfo_reset_run_state dl)) = map downloaded (pieces dl)
   \<and> list_all (\<lambda>q. owners q = [] \<and> \<not> validating q \<and> blocks_expected q = Some [])
        (pieces (DownloadInfo_reset_run_state dl))"
  by (simp add: PieceInfo_reset_run_state_def DownloadInfo_reset_run_state_def list_all_iff o_def)

theorem reset_run_state_spec_witness:
  "map downloaded (pieces (DownloadInfo_reset_run_state
      \<lparr>info_hash = ''ih'', piece_length = 1024, suggested_name = ''name'',
       files = [], file_tree = Dir [], private_d = False,
       pieces = [(PieceInfo_init ''h0'' 1024)\<lparr>downloaded := True, sources := None,
                    block_downloaded := None, blocks_expected := None\<rparr>,
                 (PieceInfo_init ''h1'' 1024)\<lparr>
                    owners := [\<lparr>host = ''10.0.0.1'', port = 6881, peer_id = None\<rparr>],
                    blocks_expected := Some [BlockRequestFuture_init 0 1 0 512]\<rparr>],
       interesting_pieces = None, downloaded_piece_count = 1, complete = False,
       host_distrust_rates = Map.empty\<rparr>)) = [True, False]
   \<and> map owners (pieces (DownloadInfo_reset_run_state
      \<lparr>info_hash = ''ih'', piece_length = 1024, suggested_name = ''name'',
       files = [], file_tree = Dir [], private_d = False,
       pieces = [(PieceInfo_init ''h0'' 1024)\<lparr>downloaded := True, sources := None,
                    block_downloaded := None, blocks_expected := None\<rparr>,
                 (PieceInfo_init ''h1'' 1024)\<lparr>
                    owners := [\<lparr>host = ''10.0.0.1'', port = 6881, peer_id = None\<rparr>],
                    blocks_expected := Some [BlockRequestFuture_init 0 1 0 512]\<rparr>],
       interesting_pieces = None, downloaded_piece_count = 1, complete = False,
       host_distrust_rates = Map.empty\<rparr>)) = [[], []]
   \<and> map blocks_expected (pieces (DownloadInfo_reset_run_state
      \<lparr>info_hash = ''ih'', piece_length = 1024, suggested_name = ''name'',
       files = [], file_tree = Dir [], private_d = False,
       pieces = [(PieceInfo_init ''h0'' 1024)\<lparr>downloaded := True, sources := None,
                    block_downloaded := None, blocks_expected := None\<rparr>,
                 (PieceInfo_init ''h1'' 1024)\<lparr>
                    owners := [\<lparr>host = ''10.0.0.1'', port = 6881, peer_id = None\<rparr>],
                    blocks_expected := Some [BlockRequestFuture_init 0 1 0 512]\<rparr>],
       interesting_pieces = None, downloaded_piece_count = 1, complete = False,
       host_distrust_rates = Map.empty\<rparr>)) = [Some [], Some []]"
  using reset_run_state_spec [where dl =
      "\<lparr>info_hash = ''ih'', piece_length = 1024, suggested_name = ''name'',
       files = [], file_tree = Dir [], private_d = False,
       pieces = [(PieceInfo_init ''h0'' 1024)\<lparr>downloaded := True, sources := None,
                    block_downloaded := None, blocks_expected := None\<rparr>,
                 (PieceInfo_init ''h1'' 1024)\<lparr>
                    owners := [\<lparr>host = ''10.0.0.1'', port = 6881, peer_id = None\<rparr>],
                    blocks_expected := Some [BlockRequestFuture_init 0 1 0 512]\<rparr>],
       interesting_pieces = None, downloaded_piece_count = 1, complete = False,
       host_distrust_rates = Map.empty\<rparr>"]
  by (simp add: PieceInfo_init_def reset_content_def)

text \<open>
  C8: \<^verbatim>\<open>bytes_left\<close> is \<open>(piece_count - downloaded_piece_count) * piece_length\<close> when
  the last piece is downloaded, and that minus \<open>piece_length - last piece length\<close> when
  it is not. (With no piece at all, which the constructor excludes, reading the last
  piece raises IndexError.)
\<close>

theorem bytes_left_spec:
  "(pieces dl \<noteq> [] \<longrightarrow>
      bytes_left dl =
        Inr (if downloaded (last (pieces dl))
             then (piece_count dl - downloaded_piece_count dl) * piece_length dl
             else (piece_count dl - downloaded_piece_count dl) * piece_length dl
                  - (piece_length dl - length_p (last (pieces dl)))))
   \<and> (pieces dl = [] \<longrightarrow> bytes_left dl = Inl IndexError)"
proof (intro conjI impI)
  assume ne: "pieces dl \<noteq> []"
  then have "nat (int (length (pieces dl)) - 1) = length (pieces dl) - 1" by simp
  then have "list_get (pieces dl) (piece_count dl - 1) = Inr (last (pieces dl))"
    using ne by (simp add: list_get_def piece_count_def Let_def last_conv_nth)
  then show "bytes_left dl =
        Inr (if downloaded (last (pieces dl))
             then (piece_count dl - downloaded_piece_count dl) * piece_length dl
             else (piece_count dl - downloaded_piece_count dl) * piece_length dl
                  - (piece_length dl - length_p (last (pieces dl))))"
    by (simp add: bytes_left_def Let_def)
next
  assume "pieces dl = []"
  then show "bytes_left dl = Inl IndexError"
    by (simp add: bytes_left_def list_get_def piece_count_def Let_def)
qed

theorem bytes_left_spec_witness:
  "\<exists>dl. DownloadInfo_init ''ih'' 1024 [''h0'', ''h1'', ''h2''] ''name'' example_files False = Inr dl
     \<and> bytes_left dl = Inr 2500
     \<and> bytes_left (dl\<lparr>pieces := [PieceInfo_init ''h0'' 1024, PieceInfo_init ''h1'' 1024,
            (PieceInfo_init ''h2'' 452)\<lparr>downloaded := True, sources := None,
               block_downloaded := None, blocks_expected := None\<rparr>],
          downloaded_piece_count := 1\<rparr>) = Inr 2048"
proof -
  obtain dl where d:
    "DownloadInfo_init ''ih'' 1024 [''h0'', ''h1'', ''h2''] ''name'' example_files False = Inr dl"
    using example_init by blast
  show ?thesis
    using d bytes_left_spec [of dl]
      bytes_left_spec [of "dl\<lparr>pieces := [PieceInfo_init ''h0'' 1024, PieceInfo_init ''h1'' 1024,
            (PieceInfo_init ''h2'' 452)\<lparr>downloaded := True, sources := None,
               block_downloaded := None, blocks_expected := None\<rparr>],
          downloaded_piece_count := 1\<rparr>"]
    by (auto simp: example_init piece_count_def PieceInfo_init_def reset_content_def)
qed

text \<open>
  C9: starting from a constructed DownloadInfo, after \<^verbatim>\<open>increase_distrust\<close> has been
  called for the peers \<open>ps\<close>, \<^verbatim>\<open>is_banned(p)\<close> holds exactly when at least five of
  those peers have the host of \<open>p\<close>, whatever their ports; two peers with one host
  are banned together.
\<close>

theorem is_banned_spec:
  assumes "DownloadInfo_init ih pl hs name fs priv = Inr dl"
  shows "(is_banned (foldl increase_distrust dl ps) p
            \<longleftrightarrow> 5 \<le> length (filter (\<lambda>q. host q = host p) ps))
         \<and> (host q = host p \<longrightarrow>
              is_banned (foldl increase_distrust dl ps) q = is_banned (foldl increase_distrust dl ps) p)"
proof -
  have e: "host_distrust_rates dl = Map.empty" using assms by (rule init_fields)
  show ?thesis
    by (auto simp: is_banned_def distrust_count e DISTRUST_RATE_TO_BAN_def filter_empty_conv split: option.splits)
qed

theorem is_banned_spec_witness:
  "\<exists>dl. DownloadInfo_init ''ih'' 1024 [''h0'', ''h1'', ''h2''] ''name'' example_files False = Inr dl
     \<and> is_banned (foldl increase_distrust dl
          [\<lparr>host = ''10.0.0.1'', port = 1, peer_id = None\<rparr>, \<lparr>host = ''10.0.0.1'', port = 2, peer_id = None\<rparr>,
           \<lparr>host = ''10.0.0.2'', port = 1, peer_id = None\<rparr>, \<lparr>host = ''10.0.0.1'', port = 3, peer_id = None\<rparr>,
           \<lparr>host = ''10.0.0.1'', port = 1, peer_id = None\<rparr>, \<lparr>host = ''10.0.0.1'', port = 1, peer_id = None\<rparr>])
          \<lparr>host = ''10.0.0.1'', port = 6881, peer_id = None\<rparr>
     \<and> \<not> is_banned (foldl increase_distrust dl
          [\<lparr>host = ''10.0.0.1'', port = 1, peer_id = None\<rparr>, \<lparr>host = ''10.0.0.1'', port = 2, peer_id = None\<rparr>,
           \<lparr>host = ''10.0.0.2'', port = 1, peer_id = None\<rparr>, \<lparr>host = ''10.0.0.1'', port = 3, peer_id = None\<rparr>,
           \<lparr>host = ''10.0.0.1'', port = 1, peer_id = None\<rparr>])
          \<lparr>host = ''10.0.0.1'', port = 6881, peer_id = None\<rparr>"
proof -
  obtain dl where d:
    "DownloadInfo_init ''ih'' 1024 [''h0'', ''h1'', ''h2''] ''name'' example_files False = Inr dl"
    using example_init by blast
  show ?thesis
    using is_banned_spec [OF d, of
          "[\<lparr>host = ''10.0.0.1'', port = 1, peer_id = None\<rparr>, \<lparr>host = ''10.0.0.1'', port = 2, peer_id = None\<rparr>,
           \<lparr>host = ''10.0.0.2'', port = 1, peer_id = None\<rparr>, \<lparr>host = ''10.0.0.1'', port = 3, peer_id = None\<rparr>,
           \<lparr>host = ''10.0.0.1'', port = 1, peer_id = None\<rparr>, \<lparr>host = ''10.0.0.1'', port = 1, peer_id = None\<rparr>]"
          "\<lparr>host = ''10.0.0.1'', port = 6881, peer_id = None\<rparr>"]
      is_banned_spec [OF d, of
          "[\<lparr>host = ''10.0.0.1'', port = 1, peer_id = None\<rparr>, \<lparr>host = ''10.0.0.1'', port = 2, peer_id = None\<rparr>,
           \<lparr>host = ''10.0.0.2'', port = 1, peer_id = None\<rparr>, \<lparr>host = ''10.0.0.1'', port = 3, peer_id = None\<rparr>,
           \<lparr>host = ''10.0.0.1'', port = 1, peer_id = None\<rparr>]"
          "\<lparr>host = ''10.0.0.1'', port = 6881, peer_id = None\<rparr>"] d
    by simp
qed

text \<open>
  C10: after construction from files made by \<^verbatim>\<open>FileInfo.__init__\<close>, every file and
  every piece is selected; and the other operations (\<^verbatim>\<open>reset_run_state\<close> of the
  transfer and of a piece, \<^verbatim>\<open>reset_content\<close>, \<^verbatim>\<open>increase_distrust\<close>,
  \<^verbatim>\<open>mark_as_downloaded\<close>, \<^verbatim>\<open>mark_downloaded_blocks\<close>) leave the selected flags as
  they are.
\<close>

theorem default_selection_spec:
  "(DownloadInfo_init ih pl hs name (map (\<lambda>(len, p, m). FileInfo_init len p m) specs) priv = Inr dl
      \<longrightarrow> list_all selected_f (files dl) \<and> list_all selected_p (pieces dl))
   \<and> map selected_p (pieces (DownloadInfo_reset_run_state d)) = map selected_p (pieces d)
   \<and> files (DownloadInfo_reset_run_state d) = files d
   \<and> pieces (increase_distrust d peer) = pieces d
   \<and> files (increase_distrust d peer) = files d
   \<and> selected_p (PieceInfo_reset_run_state q) = selected_p q
   \<and> selected_p (reset_content q) = selected_p q
   \<and> (mark_as_downloaded q = Inr q' \<longrightarrow> selected_p q' = selected_p q)
   \<and> (mark_downloaded_blocks q source request = Inr (q'', ds) \<longrightarrow> selected_p q'' = selected_p q)"
proof (intro conjI impI)
  assume a: "DownloadInfo_init ih pl hs name (map (\<lambda>(len, p, m). FileInfo_init len p m) specs) priv
      = Inr dl"
  note f = init_fields [OF a]
  have "map selected_f (files dl) = map (\<lambda>x. True) specs"
    by (simp add: f(5) o_def FileInfo_init_def split_def)
  then have "\<forall>x \<in> set (map selected_f (files dl)). x" by simp
  then show "list_all selected_f (files dl)" by (simp add: list_all_iff)
  show "list_all selected_p (pieces dl)"
    by (simp add: f(6) list_all_iff PieceInfo_init_def reset_content_def)
next
  assume "mark_as_downloaded q = Inr q'"
  then show "selected_p q' = selected_p q"
    by (auto simp: mark_as_downloaded_def split: if_splits)
next
  assume "mark_downloaded_blocks q source request = Inr (q'', ds)"
  then show "selected_p q'' = selected_p q"
    by (auto simp: mark_downloaded_blocks_def Let_def split: if_splits option.splits sum.splits)
qed (simp_all add: DownloadInfo_reset_run_state_def PieceInfo_reset_run_state_def
      increase_distrust_def reset_content_def o_def)

theorem default_selection_spec_witness:
  "\<exists>dl. DownloadInfo_init ''ih'' 1024 [''h0'', ''h1'', ''h2''] ''name''
           (map (\<lambda>(len, p, m). FileInfo_init len p m)
              [(1500, [''a''], None), (1000, [''d'', ''b''], None)]) False = Inr dl
     \<and> map selected_f (files dl) = [True, True]
     \<and> map selected_p (pieces dl) = [True, True, True]"
proof -
  obtain dl where d:
    "DownloadInfo_init ''ih'' 1024 [''h0'', ''h1'', ''h2''] ''name''
           (map (\<lambda>(len, p, m). FileInfo_init len p m)
              [(1500, [''a''], None), (1000, [''d'', ''b''], None)]) False = Inr dl"
    using example_init by auto
  have l: "length (files dl) = 2" "length (pieces dl) = 3"
    using d by (auto simp: example_init)
  from l(1) obtain f0 f1 where fs: "files dl = [f0, f1]"
    by (cases "files dl"; cases "tl (files dl)") auto
  from l(2) obtain p0 p1 p2 where ps: "pieces dl = [p0, p1, p2]"
    by (cases "pieces dl"; cases "tl (pieces dl)"; cases "tl (tl (pieces dl))") auto
  show ?thesis
    using default_selection_spec [of "''ih''" 1024 "[''h0'', ''h1'', ''h2'']" "''name''"
        "[(1500, [''a''], None), (1000, [''d'', ''b''], None)]" False dl] d
    by (simp add: fs ps)
qed

end
